theory Spec2Isabelle
  imports Complex_Main "HOL-Library.Word"
begin

section \<open>Antibody kinetics of \<^verbatim>\<open>Eradication/MalariaAntibody.cpp\<close>\<close>

text \<open>
  The C++ class \<^verbatim>\<open>MalariaAntibody\<close> and its four subclasses are embedded as functions on a
  record of the six member variables. Every member function takes the object first and
  returns the object after the call.

  Numbers. The members \<^verbatim>\<open>m_antibody_capacity\<close> and \<^verbatim>\<open>m_antibody_concentration\<close>, the
  arguments \<^verbatim>\<open>dt\<close> and \<^verbatim>\<open>inv_uL_blood\<close> and the configuration values are C++ \<^verbatim>\<open>float\<close>s.
  They are modelled as \<open>real\<close> and the arithmetic on them as exact: rounding, infinities
  and NaN are outside the model, and every statement below is one about the formulas
  the code evaluates. There is one exception. Every test of the code but one is made
  on a value the object held before the call, or decides a cut that is continuous in
  the tested value; the test of line 90 is made on the float that line 87 has just
  stored, and the result jumps where that float passes the threshold. The model keeps
  this one store explicit, as a function from the exact sum to the float that the
  assignment leaves in the member. \<^verbatim>\<open>m_antigen_count\<close> is an \<^verbatim>\<open>int64_t\<close> and is a \<open>64 word\<close> read
  as two's complement; \<^verbatim>\<open>m_antibody_variant\<close> is an \<^verbatim>\<open>int\<close>, a \<open>32 word\<close>.
\<close>

subsection \<open>State and configuration\<close>

datatype MalariaAntibodyType = CSP | MSP1 | PfEMP1_minor | PfEMP1_major

record MalariaAntibody =
  m_antibody_capacity :: real
  m_antibody_concentration :: real
  m_antigen_count :: "64 word"
  m_antigen_present :: bool
  m_antibody_type :: MalariaAntibodyType
  m_antibody_variant :: "32 word"

text \<open>The members of \<^verbatim>\<open>SusceptibilityMalariaConfig\<close> that this file reads.\<close>

record SusceptibilityMalariaConfig =
  memory_level :: real
  hyperimmune_decay_rate :: real
  antibody_csp_decay_days :: real
  MSP1_antibody_growthrate :: real
  antibody_stimulation_c50 :: real
  minimum_adapted_response :: real
  non_specific_growth :: real
  antibody_capacity_growthrate :: real

text \<open>The dynamic class of an object, which selects the override a virtual call runs.\<close>

datatype AntibodyClass =
    MalariaAntibodyBase
  | MalariaAntibodyCSP
  | MalariaAntibodyMSP
  | MalariaAntibodyPfEMP1Minor
  | MalariaAntibodyPfEMP1Major

subsection \<open>The constants of lines 15 to 20\<close>

text \<open>
  Each constant is the decimal the source writes. The literals \<^verbatim>\<open>0.05f\<close> and \<^verbatim>\<open>0.33f\<close>
  denote the floats nearest to these decimals and enter products only; the other
  literals are doubles that a float is compared with, and for a float the comparison
  with the decimal has the same outcome.
\<close>

definition NON_TRIVIAL_ANTIBODY_THRESHOLD :: real where
  "NON_TRIVIAL_ANTIBODY_THRESHOLD = 1 / 10000000"

definition TWENTY_DAY_DECAY_CONSTANT :: real where
  "TWENTY_DAY_DECAY_CONSTANT = 5 / 100"

definition B_CELL_PROLIFERATION_THRESHOLD :: real where
  "B_CELL_PROLIFERATION_THRESHOLD = 4 / 10"

definition B_CELL_PROLIFERATION_CONSTANT :: real where
  "B_CELL_PROLIFERATION_CONSTANT = 33 / 100"

definition ANTIBODY_RELEASE_THRESHOLD :: real where
  "ANTIBODY_RELEASE_THRESHOLD = 3 / 10"

definition ANTIBODY_RELEASE_FACTOR :: real where
  "ANTIBODY_RELEASE_FACTOR = 4"

subsection \<open>The helper from \<^verbatim>\<open>MathFunctions.h\<close>\<close>

text \<open>
  Modelled from the spec: \<^verbatim>\<open>Sigmoid::basic_sigmoid\<close> is declared in \<^verbatim>\<open>MathFunctions.h\<close>,
  which is not among the sources. The specification gives it as
  \<^verbatim>\<open>sigmoid(c50, x) = x / (x + c50)\<close>.
\<close>

definition basic_sigmoid :: "real \<Rightarrow> real \<Rightarrow> real" where
  "basic_sigmoid threshold variable = variable / (variable + threshold)"

text \<open>The conversion \<^verbatim>\<open>float(m_antigen_count)\<close>.\<close>

definition float_of_count :: "64 word \<Rightarrow> real" where
  "float_of_count n = real_of_int (sint n)"

subsection \<open>Construction\<close>

text \<open>
  The constructor initialises two members only; the other four keep whatever the
  memory held, which is the argument \<open>mem\<close>.
\<close>

definition MalariaAntibody_ctor :: "MalariaAntibody \<Rightarrow> MalariaAntibody" where
  "MalariaAntibody_ctor mem = mem\<lparr>m_antigen_count := 0, m_antigen_present := False\<rparr>"

definition Initialize ::
  "MalariaAntibody \<Rightarrow> MalariaAntibodyType \<Rightarrow> 32 word \<Rightarrow> real \<Rightarrow> real \<Rightarrow> MalariaAntibody" where
  "Initialize this type variant capacity concentration =
     this\<lparr>m_antibody_type := type,
          m_antibody_variant := variant,
          m_antibody_capacity := capacity,
          m_antibody_concentration := concentration\<rparr>"

subsection \<open>Decay\<close>

definition Decay ::
  "MalariaAntibody \<Rightarrow> real \<Rightarrow> SusceptibilityMalariaConfig \<Rightarrow> MalariaAntibody" where
  "Decay this dt params =
     (let s1 = (if m_antibody_concentration this > NON_TRIVIAL_ANTIBODY_THRESHOLD
                then this\<lparr>m_antibody_concentration :=
                       m_antibody_concentration this
                       - m_antibody_concentration this * TWENTY_DAY_DECAY_CONSTANT * dt\<rparr>
                else this)
      in if m_antibody_capacity s1 > memory_level params
         then s1\<lparr>m_antibody_capacity :=
                m_antibody_capacity s1
                - (m_antibody_capacity s1 - memory_level params)
                  * hyperimmune_decay_rate params * dt\<rparr>
         else s1)"

definition CSP_Decay ::
  "MalariaAntibody \<Rightarrow> real \<Rightarrow> SusceptibilityMalariaConfig \<Rightarrow> MalariaAntibody" where
  "CSP_Decay this dt params =
     (if m_antibody_concentration this > m_antibody_capacity this
      then this\<lparr>m_antibody_concentration :=
             m_antibody_concentration this
             - m_antibody_concentration this * dt / antibody_csp_decay_days params\<rparr>
      else Decay this dt params)"

subsection \<open>Cytokine stimulation\<close>

text \<open>
  The member function is not declared \<^verbatim>\<open>const\<close> in this file, so the model returns the
  object next to the value.
\<close>

definition StimulateCytokines ::
  "MalariaAntibody \<Rightarrow> real \<Rightarrow> real \<Rightarrow> real \<times> MalariaAntibody" where
  "StimulateCytokines this dt inv_uL_blood =
     ((1 - m_antibody_concentration this) * float_of_count (m_antigen_count this)
        * inv_uL_blood,
      this)"

subsection \<open>Capacity growth\<close>

definition clamp_capacity :: "MalariaAntibody \<Rightarrow> MalariaAntibody" where
  "clamp_capacity this =
     (if m_antibody_capacity this > 1 then this\<lparr>m_antibody_capacity := 1\<rparr> else this)"

text \<open>
  \<open>stored x\<close> is the float that the assignment of line 87 leaves in
  \<^verbatim>\<open>m_antibody_capacity\<close> where exact arithmetic gives \<open>x\<close>. Line 90 compares that float
  with the literal \<^verbatim>\<open>0.4\<close>.
\<close>

definition UpdateAntibodyCapacity ::
  "(real \<Rightarrow> real) \<Rightarrow> MalariaAntibody \<Rightarrow> real \<Rightarrow> SusceptibilityMalariaConfig \<Rightarrow> real
     \<Rightarrow> MalariaAntibody" where
  "UpdateAntibodyCapacity stored this dt params inv_uL_blood =
     (let growth_rate = MSP1_antibody_growthrate params;
          threshold = antibody_stimulation_c50 params;
          s1 = this\<lparr>m_antibody_capacity :=
                 stored
                   (m_antibody_capacity this
                    + growth_rate * (1 - m_antibody_capacity this)
                      * basic_sigmoid threshold
                          (float_of_count (m_antigen_count this) * inv_uL_blood))\<rparr>;
          s2 = (if m_antibody_capacity s1 > B_CELL_PROLIFERATION_THRESHOLD
                then s1\<lparr>m_antibody_capacity :=
                       m_antibody_capacity s1
                       + (1 - m_antibody_capacity s1) * B_CELL_PROLIFERATION_CONSTANT * dt\<rparr>
                else s1)
      in clamp_capacity s2)"

text \<open>The overload \<^verbatim>\<open>UpdateAntibodyCapacity( float dt, float growth_rate )\<close>.\<close>

definition UpdateAntibodyCapacity_rate ::
  "MalariaAntibody \<Rightarrow> real \<Rightarrow> real \<Rightarrow> MalariaAntibody" where
  "UpdateAntibodyCapacity_rate this dt growth_rate =
     clamp_capacity
       (this\<lparr>m_antibody_capacity :=
          m_antibody_capacity this + growth_rate * dt * (1 - m_antibody_capacity this)\<rparr>)"

definition PfEMP1Minor_UpdateAntibodyCapacity ::
  "MalariaAntibody \<Rightarrow> real \<Rightarrow> SusceptibilityMalariaConfig \<Rightarrow> real \<Rightarrow> MalariaAntibody" where
  "PfEMP1Minor_UpdateAntibodyCapacity this dt params inv_uL_blood =
     (let min_stimulation = antibody_stimulation_c50 params * minimum_adapted_response params;
          growth_rate = antibody_capacity_growthrate params * non_specific_growth params;
          threshold = antibody_stimulation_c50 params;
          s1 = (if m_antibody_capacity this \<le> B_CELL_PROLIFERATION_THRESHOLD
                then this\<lparr>m_antibody_capacity :=
                       m_antibody_capacity this
                       + growth_rate * dt * (1 - m_antibody_capacity this)
                         * basic_sigmoid threshold
                             (float_of_count (m_antigen_count this) * inv_uL_blood
                              + min_stimulation)\<rparr>
                else this\<lparr>m_antibody_capacity :=
                       m_antibody_capacity this
                       + (1 - m_antibody_capacity this) * B_CELL_PROLIFERATION_CONSTANT * dt\<rparr>)
      in clamp_capacity s1)"

definition PfEMP1Major_UpdateAntibodyCapacity ::
  "MalariaAntibody \<Rightarrow> real \<Rightarrow> SusceptibilityMalariaConfig \<Rightarrow> real \<Rightarrow> MalariaAntibody" where
  "PfEMP1Major_UpdateAntibodyCapacity this dt params inv_uL_blood =
     (let min_stimulation = antibody_stimulation_c50 params * minimum_adapted_response params;
          growth_rate = antibody_capacity_growthrate params;
          threshold = antibody_stimulation_c50 params
      in if m_antibody_capacity this \<le> B_CELL_PROLIFERATION_THRESHOLD
         then clamp_capacity
                (this\<lparr>m_antibody_capacity :=
                   m_antibody_capacity this
                   + growth_rate * dt * (1 - m_antibody_capacity this)
                     * basic_sigmoid threshold
                         (float_of_count (m_antigen_count this) * inv_uL_blood
                          + min_stimulation)\<rparr>)
         else this\<lparr>m_antibody_capacity :=
                m_antibody_capacity this
                + (1 - m_antibody_capacity this) * B_CELL_PROLIFERATION_CONSTANT * dt\<rparr>)"

subsection \<open>Concentration release\<close>

definition UpdateAntibodyConcentration ::
  "MalariaAntibody \<Rightarrow> real \<Rightarrow> SusceptibilityMalariaConfig \<Rightarrow> MalariaAntibody" where
  "UpdateAntibodyConcentration this dt params =
     (let s1 = (if m_antibody_capacity this > ANTIBODY_RELEASE_THRESHOLD
                then this\<lparr>m_antibody_concentration :=
                       m_antibody_concentration this
                       + (m_antibody_capacity this - m_antibody_concentration this)
                         * ANTIBODY_RELEASE_FACTOR * dt\<rparr>
                else this)
      in if m_antibody_concentration s1 > m_antibody_capacity s1
         then s1\<lparr>m_antibody_concentration := m_antibody_capacity s1\<rparr>
         else s1)"

definition CSP_UpdateAntibodyConcentration ::
  "MalariaAntibody \<Rightarrow> real \<Rightarrow> SusceptibilityMalariaConfig \<Rightarrow> MalariaAntibody" where
  "CSP_UpdateAntibodyConcentration this dt params =
     (if m_antibody_concentration this > m_antibody_capacity this
      then this\<lparr>m_antibody_concentration :=
             m_antibody_concentration this
             - m_antibody_concentration this * dt / antibody_csp_decay_days params\<rparr>
      else UpdateAntibodyConcentration this dt params)"

subsection \<open>Antigen bookkeeping\<close>

definition ResetCounters :: "MalariaAntibody \<Rightarrow> MalariaAntibody" where
  "ResetCounters this = this\<lparr>m_antigen_present := False, m_antigen_count := 0\<rparr>"

text \<open>
  \<^verbatim>\<open>antigenCount > 0\<close> compares signed 64-bit integers. The addition is the machine's:
  it wraps where the C++ addition would overflow.
\<close>

definition IncreaseAntigenCount :: "MalariaAntibody \<Rightarrow> 64 word \<Rightarrow> MalariaAntibody" where
  "IncreaseAntigenCount this antigenCount =
     (if 0 <s antigenCount
      then this\<lparr>m_antigen_count := m_antigen_count this + antigenCount,
                m_antigen_present := True\<rparr>
      else this)"

definition SetAntigenicPresence :: "MalariaAntibody \<Rightarrow> bool \<Rightarrow> MalariaAntibody" where
  "SetAntigenicPresence this antigenPresent = this\<lparr>m_antigen_present := antigenPresent\<rparr>"

subsection \<open>Virtual dispatch\<close>

text \<open>
  The overrides defined in the file: \<^verbatim>\<open>MalariaAntibodyCSP\<close> overrides \<^verbatim>\<open>Decay\<close> and
  \<^verbatim>\<open>UpdateAntibodyConcentration\<close>, the two PfEMP1 classes override the three-argument
  \<^verbatim>\<open>UpdateAntibodyCapacity\<close>; every other call runs the base class's function.
\<close>

fun virtual_Decay ::
  "AntibodyClass \<Rightarrow> MalariaAntibody \<Rightarrow> real \<Rightarrow> SusceptibilityMalariaConfig \<Rightarrow> MalariaAntibody" where
  "virtual_Decay MalariaAntibodyCSP = CSP_Decay"
| "virtual_Decay _ = Decay"

fun virtual_UpdateAntibodyCapacity ::
  "(real \<Rightarrow> real) \<Rightarrow> AntibodyClass \<Rightarrow> MalariaAntibody \<Rightarrow> real
     \<Rightarrow> SusceptibilityMalariaConfig \<Rightarrow> real \<Rightarrow> MalariaAntibody" where
  "virtual_UpdateAntibodyCapacity stored MalariaAntibodyPfEMP1Minor
     = PfEMP1Minor_UpdateAntibodyCapacity"
| "virtual_UpdateAntibodyCapacity stored MalariaAntibodyPfEMP1Major
     = PfEMP1Major_UpdateAntibodyCapacity"
| "virtual_UpdateAntibodyCapacity stored _ = UpdateAntibodyCapacity stored"

fun virtual_UpdateAntibodyConcentration ::
  "AntibodyClass \<Rightarrow> MalariaAntibody \<Rightarrow> real \<Rightarrow> SusceptibilityMalariaConfig \<Rightarrow> MalariaAntibody" where
  "virtual_UpdateAntibodyConcentration MalariaAntibodyCSP = CSP_UpdateAntibodyConcentration"
| "virtual_UpdateAntibodyConcentration _ = UpdateAntibodyConcentration"

subsection \<open>JSON export and import\<close>

text \<open>
  The adapter behind \<^verbatim>\<open>IJsonObjectAdapter\<close> is not among the sources; the object it is
  given between \<^verbatim>\<open>BeginObject\<close> and \<^verbatim>\<open>EndObject\<close> is modelled as the list of the
  inserted keys and values, in the order of the \<^verbatim>\<open>Insert\<close> calls. The cast
  \<^verbatim>\<open>(int) m_antibody_type\<close> depends on the enumeration's declaration, which is in a
  header; it is the parameter \<open>enum_code\<close>.
\<close>

datatype JsonValue = JsonReal real | JsonInt int | JsonBool bool

type_synonym JsonObject = "(string \<times> JsonValue) list"

definition JSerialize :: "(MalariaAntibodyType \<Rightarrow> int) \<Rightarrow> MalariaAntibody \<Rightarrow> JsonObject" where
  "JSerialize enum_code this =
     [(''m_antibody_capacity'', JsonReal (m_antibody_capacity this)),
      (''m_antibody_concentration'', JsonReal (m_antibody_concentration this)),
      (''m_antigen_count'', JsonInt (sint (m_antigen_count this))),
      (''m_antigen_present'', JsonBool (m_antigen_present this)),
      (''m_antibody_type'', JsonInt (enum_code (m_antibody_type this))),
      (''m_antibody_variant'', JsonInt (sint (m_antibody_variant this)))]"

text \<open>
  The body of \<^verbatim>\<open>JDeserialize\<close> (lines 307 to 312) stands between \<^verbatim>\<open>#if 0\<close> and
  \<^verbatim>\<open>#endif\<close>: the compiled function has no statement.
\<close>

definition JDeserialize :: "MalariaAntibody \<Rightarrow> JsonObject \<Rightarrow> MalariaAntibody" where
  "JDeserialize this json_root = this"

text \<open>Each of the four subclasses forwards both calls to the base class.\<close>

definition virtual_JSerialize ::
  "AntibodyClass \<Rightarrow> (MalariaAntibodyType \<Rightarrow> int) \<Rightarrow> MalariaAntibody \<Rightarrow> JsonObject" where
  "virtual_JSerialize cls enum_code this = JSerialize enum_code this"

definition virtual_JDeserialize ::
  "AntibodyClass \<Rightarrow> MalariaAntibody \<Rightarrow> JsonObject \<Rightarrow> MalariaAntibody" where
  "virtual_JDeserialize cls this json_root = JDeserialize this json_root"

subsection \<open>Predicates used in the statements\<close>

definition capacity_in_unit :: "MalariaAntibody \<Rightarrow> bool" where
  "capacity_in_unit s = (0 \<le> m_antibody_capacity s \<and> m_antibody_capacity s \<le> 1)"

text \<open>
  The members a kinetics update must not touch: the identity of the lineage and the
  antigen counters.
\<close>

definition same_identity_and_counters :: "MalariaAntibody \<Rightarrow> MalariaAntibody \<Rightarrow> bool" where
  "same_identity_and_counters s s' =
     (m_antibody_type s' = m_antibody_type s
      \<and> m_antibody_variant s' = m_antibody_variant s
      \<and> m_antigen_count s' = m_antigen_count s
      \<and> m_antigen_present s' = m_antigen_present s)"

definition same_kinetics_and_identity :: "MalariaAntibody \<Rightarrow> MalariaAntibody \<Rightarrow> bool" where
  "same_kinetics_and_identity s s' =
     (m_antibody_capacity s' = m_antibody_capacity s
      \<and> m_antibody_concentration s' = m_antibody_concentration s
      \<and> m_antibody_type s' = m_antibody_type s
      \<and> m_antibody_variant s' = m_antibody_variant s)"

text \<open>
  The values a \<^verbatim>\<open>float\<close> can hold: an integer of fewer than 24 bits, scaled by a
  power of two (the bounds on the exponent are not needed below). It is the type of
  \<^verbatim>\<open>m_antibody_capacity\<close>.
\<close>

definition single_precision :: "real \<Rightarrow> bool" where
  "single_precision x =
     (\<exists>(m::int) (k::nat). \<bar>m\<bar> < 2 ^ 24 \<and> (x = of_int m * 2 ^ k \<or> x = of_int m / 2 ^ k))"

text \<open>
  The \<^verbatim>\<open>double\<close> that the literal \<^verbatim>\<open>0.4\<close> of \<^verbatim>\<open>B_CELL_PROLIFERATION_THRESHOLD\<close> denotes:
  the one nearest to two fifths.
\<close>

definition double_literal_0_4 :: real where
  "double_literal_0_4 = 3602879701896397 / 2 ^ 53"

text \<open>
  The \<^verbatim>\<open>float\<close> that the literal \<^verbatim>\<open>0.33f\<close> of \<^verbatim>\<open>B_CELL_PROLIFERATION_CONSTANT\<close> denotes.
\<close>

definition float_literal_0_33 :: real where
  "float_literal_0_33 = 11072963 / 2 ^ 25"

text \<open>
  What the statements about the range of the capacity ask of the store of line 87:
  a value between 0 and 1 is stored as a float between 0 and 1. Rounding to the
  nearest float does that, 0 and 1 being floats.
\<close>

definition keeps_unit_interval :: "(real \<Rightarrow> real) \<Rightarrow> bool" where
  "keeps_unit_interval stored = (\<forall>x. 0 \<le> x \<and> x \<le> 1 \<longrightarrow> 0 \<le> stored x \<and> stored x \<le> 1)"

text \<open>
  Rounding to the nearest multiple of \<open>2\<^sup>-\<^sup>k\<close>. The floats from \<open>2\<^sup>2\<^sup>3\<^sup>-\<^sup>k\<close> up to
  \<open>2\<^sup>2\<^sup>4\<^sup>-\<^sup>k\<close> are those multiples, so that for a sum in that range this is the
  store; it is the store of the concrete runs below.
\<close>

definition round_to_grid :: "nat \<Rightarrow> real \<Rightarrow> real" where
  "round_to_grid k x = of_int (round (x * 2 ^ k)) / 2 ^ k"

subsection \<open>Concrete lineages and configurations\<close>

definition config_example :: SusceptibilityMalariaConfig where
  "config_example =
     \<lparr>memory_level = 0.3, hyperimmune_decay_rate = 0.01, antibody_csp_decay_days = 90,
      MSP1_antibody_growthrate = 0.05, antibody_stimulation_c50 = 20,
      minimum_adapted_response = 0.01, non_specific_growth = 0.5,
      antibody_capacity_growthrate = 0.1\<rparr>"

definition lineage_example :: MalariaAntibody where
  "lineage_example =
     \<lparr>m_antibody_capacity = 1/2, m_antibody_concentration = 1/4, m_antigen_count = 7,
      m_antigen_present = False, m_antibody_type = MSP1, m_antibody_variant = 3\<rparr>"


text \<open>A lineage whose concentration was pushed above its capacity.\<close>

definition boosted_example :: MalariaAntibody where
  "boosted_example =
     \<lparr>m_antibody_capacity = 1/4, m_antibody_concentration = 2, m_antigen_count = 5,
      m_antigen_present = True, m_antibody_type = CSP, m_antibody_variant = 1\<rparr>"

text \<open>Scenarios B and C of the specification, in one lineage.\<close>

definition scenario_B :: MalariaAntibody where
  "scenario_B =
     \<lparr>m_antibody_capacity = 0.95, m_antibody_concentration = 0.5, m_antigen_count = 0,
      m_antigen_present = False, m_antibody_type = PfEMP1_major, m_antibody_variant = 12\<rparr>"

text \<open>A configuration with a growth rate above one, and a naive lineage.\<close>

definition config_fast_growth :: SusceptibilityMalariaConfig where
  "config_fast_growth =
     \<lparr>memory_level = 0.3, hyperimmune_decay_rate = 0.01, antibody_csp_decay_days = 90,
      MSP1_antibody_growthrate = 10, antibody_stimulation_c50 = 1,
      minimum_adapted_response = 0.01, non_specific_growth = 0.5,
      antibody_capacity_growthrate = 0.1\<rparr>"

definition naive_example :: MalariaAntibody where
  "naive_example =
     \<lparr>m_antibody_capacity = 0, m_antibody_concentration = 0, m_antigen_count = 1,
      m_antigen_present = True, m_antibody_type = MSP1, m_antibody_variant = 0\<rparr>"

section \<open>Auxiliary facts\<close>

lemma basic_sigmoid_range:
  assumes "0 \<le> x" "0 \<le> c"
  shows "0 \<le> basic_sigmoid c x" "basic_sigmoid c x \<le> 1"
proof -
  show "0 \<le> basic_sigmoid c x"
    using assms by (simp add: basic_sigmoid_def)
  show "basic_sigmoid c x \<le> 1"
  proof (cases "x + c = 0")
    case True
    then show ?thesis by (simp add: basic_sigmoid_def)
  next
    case False
    with assms have "0 < x + c" by linarith
    with assms show ?thesis by (simp add: basic_sigmoid_def)
  qed
qed

lemma capacity_clamp [simp]:
  "m_antibody_capacity (clamp_capacity s) = min (m_antibody_capacity s) 1"
  by (simp add: clamp_capacity_def)

lemma clamp_capacity_update:
  "clamp_capacity (s\<lparr>m_antibody_capacity := c\<rparr>) = s\<lparr>m_antibody_capacity := min c 1\<rparr>"
  by (simp add: clamp_capacity_def min_def)

lemma clamp_in_unit:
  "0 \<le> m_antibody_capacity s \<Longrightarrow> capacity_in_unit (clamp_capacity s)"
  by (simp add: capacity_in_unit_def)

lemma float_of_count_nonneg: "0 \<le> sint n \<Longrightarrow> 0 \<le> float_of_count n"
  unfolding float_of_count_def by (rule of_int_nonneg)

lemma sless_zero: "(0 <s (n::64 word)) = (0 < sint n)"
  by (simp add: word_sless_alt)

lemma sle_zero: "((n::64 word) \<le>s 0) = (sint n \<le> 0)"
  by (simp add: word_sle_eq)

lemma sint_add_no_overflow:
  fixes a n :: "64 word"
  assumes "0 < sint n" "sint a + sint n < 2 ^ 63"
  shows "sint (a + n) = sint a + sint n"
proof -
  have "- (2 ^ 63) \<le> sint a" using sint_ge [of a] by simp
  with assms have "- (2 ^ 63) \<le> sint a + sint n" by linarith
  with assms(2) show ?thesis
    by (simp add: sint_word_ariths signed_take_bit_int_eq_self)
qed

subsection \<open>Floats and the proliferation threshold\<close>

text \<open>No power of two is a multiple of five, so no float is two fifths.\<close>

lemma five_not_dvd_power_of_two: "\<not> (5::int) dvd 2 ^ n"
proof
  assume d: "(5::int) dvd 2 ^ n"
  have c: "coprime (5::int) (2 ^ n)" by simp
  from coprime_absorb_left [OF d] c have "is_unit (5::int)" by simp
  then show False by simp
qed

lemma dyadic_not_two_fifths: "real_of_int m / 2 ^ e \<noteq> 4 / 10"
proof
  assume "real_of_int m / 2 ^ e = 4 / 10"
  then have "real_of_int m * 10 = 4 * 2 ^ e"
    by (simp add: field_simps)
  then have "real_of_int (m * 5) = real_of_int (2 ^ (e + 1))"
    by simp
  then have "m * 5 = 2 ^ (e + 1)"
    by (simp only: of_int_eq_iff)
  then have "(5::int) dvd 2 ^ (e + 1)"
    by (metis dvd_triv_right)
  then show False
    using five_not_dvd_power_of_two by blast
qed

lemma single_precision_not_threshold:
  assumes "single_precision x"
  shows "x \<noteq> B_CELL_PROLIFERATION_THRESHOLD"
proof
  assume eq: "x = B_CELL_PROLIFERATION_THRESHOLD"
  from assms obtain m :: int and k :: nat
    where "x = of_int m * 2 ^ k \<or> x = of_int m / 2 ^ k"
    unfolding single_precision_def by blast
  then show False
  proof
    assume "x = of_int m * 2 ^ k"
    then have "x = real_of_int (m * 2 ^ k) / 2 ^ 0" by simp
    with eq dyadic_not_two_fifths [of "m * 2 ^ k" 0] show False
      by (simp only: B_CELL_PROLIFERATION_THRESHOLD_def)
  next
    assume "x = of_int m / 2 ^ k"
    with eq dyadic_not_two_fifths [of m k] show False
      by (simp only: B_CELL_PROLIFERATION_THRESHOLD_def)
  qed
qed

lemma single_precision_fraction: "single_precision (1 / 2 ^ k)"
  unfolding single_precision_def by (rule exI [of _ 1], rule exI [of _ k]) simp

text \<open>
  A float of at least one quarter is a multiple of \<open>2\<^sup>-\<^sup>2\<^sup>5\<close>.
\<close>

lemma single_precision_grid:
  assumes "single_precision x" "1 / 4 \<le> x"
  shows "\<exists>n::int. x * 2 ^ 25 = of_int n"
proof -
  from assms(1) obtain m :: int and k :: nat
    where m: "\<bar>m\<bar> < 2 ^ 24" and x: "x = of_int m * 2 ^ k \<or> x = of_int m / 2 ^ k"
    unfolding single_precision_def by blast
  from x show ?thesis
  proof
    assume "x = of_int m * 2 ^ k"
    then have "x * 2 ^ 25 = of_int (m * 2 ^ k * 2 ^ 25)" by simp
    then show ?thesis by blast
  next
    assume xk: "x = of_int m / 2 ^ k"
    show ?thesis
    proof (cases "k \<le> 25")
      case True
      then have e: "(2::real) ^ 25 = 2 ^ (25 - k) * 2 ^ k"
        by (simp flip: power_add)
      have "x * 2 ^ 25 = of_int m / 2 ^ k * (2 ^ (25 - k) * 2 ^ k)"
        by (simp only: xk e)
      also have "\<dots> = of_int (m * 2 ^ (25 - k))"
        by simp
      finally show ?thesis by blast
    next
      case False
      then have "(2::real) ^ 26 \<le> 2 ^ k"
        by (intro power_increasing) simp_all
      then have "67108864 \<le> (2::real) ^ k" by simp
      moreover have "real_of_int m < 16777216"
      proof -
        from m have "m < 16777216" by simp
        then have "real_of_int m < real_of_int 16777216" by (simp only: of_int_less_iff)
        then show ?thesis by simp
      qed
      ultimately have "real_of_int m < 2 ^ k / 4" by linarith
      then have "real_of_int m / 2 ^ k < 2 ^ k / 4 / 2 ^ k"
        by (rule divide_strict_right_mono) simp
      then have "x < 1 / 4"
        using xk by simp
      with assms(2) show ?thesis by simp
    qed
  qed
qed

text \<open>
  Comparing a float with the literal \<^verbatim>\<open>0.4\<close> and comparing it with two fifths give
  the same answer: the constant of the model may be the decimal.
\<close>

lemma threshold_literal_faithful:
  assumes "single_precision x"
  shows "(x \<le> double_literal_0_4) = (x \<le> B_CELL_PROLIFERATION_THRESHOLD)"
    and "(double_literal_0_4 < x) = (B_CELL_PROLIFERATION_THRESHOLD < x)"
proof -
  have lt: "B_CELL_PROLIFERATION_THRESHOLD < double_literal_0_4"
    by (simp add: B_CELL_PROLIFERATION_THRESHOLD_def double_literal_0_4_def)
  have none: "\<not> (B_CELL_PROLIFERATION_THRESHOLD < x \<and> x \<le> double_literal_0_4)"
  proof
    assume a: "B_CELL_PROLIFERATION_THRESHOLD < x \<and> x \<le> double_literal_0_4"
    then have "1 / 4 \<le> x" by (simp add: B_CELL_PROLIFERATION_THRESHOLD_def)
    from single_precision_grid [OF assms this] obtain n :: int
      where n: "x * 2 ^ 25 = of_int n" by blast
    from a have "4 / 10 * 2 ^ 25 < x * 2 ^ 25"
      by (simp add: B_CELL_PROLIFERATION_THRESHOLD_def)
    with n have "real_of_int 13421772 < of_int n" by simp
    then have lo: "13421772 < n" by (simp only: of_int_less_iff)
    from a have "x * 2 ^ 25 \<le> double_literal_0_4 * 2 ^ 25" by simp
    with n have "of_int n < real_of_int 13421773"
      by (simp add: double_literal_0_4_def)
    then have "n < 13421773" by (simp only: of_int_less_iff)
    with lo show False by simp
  qed
  show "(x \<le> double_literal_0_4) = (x \<le> B_CELL_PROLIFERATION_THRESHOLD)"
    using lt none by auto
  then show "(double_literal_0_4 < x) = (B_CELL_PROLIFERATION_THRESHOLD < x)"
    by auto
qed

text \<open>
  The decimal 0.33 of the model and the literal \<^verbatim>\<open>0.33f\<close> differ by less than
  \<open>2\<^sup>-\<^sup>2\<^sup>6\<close>. The formulas below use the decimal; no statement rests on a comparison
  that this difference could turn.
\<close>

lemma proliferation_constant_literal:
  "B_CELL_PROLIFERATION_CONSTANT < float_literal_0_33"
  "float_literal_0_33 - B_CELL_PROLIFERATION_CONSTANT < 1 / 2 ^ 26"
  by (simp_all add: B_CELL_PROLIFERATION_CONSTANT_def float_literal_0_33_def)

subsection \<open>Rounding to a grid\<close>

lemma round_to_grid_unit: "keeps_unit_interval (round_to_grid k)"
  unfolding keeps_unit_interval_def
proof (intro allI impI)
  fix x :: real
  assume a: "0 \<le> x \<and> x \<le> 1"
  have "round (0::real) \<le> round (x * 2 ^ k)"
    using a by (intro round_mono) simp
  then have lo: "0 \<le> round (x * 2 ^ k)" by simp
  have "round (x * 2 ^ k) \<le> round ((2::real) ^ k)"
    using a by (intro round_mono) (simp add: mult_left_le_one_le)
  moreover have "round ((2::real) ^ k) = 2 ^ k"
    using round_of_int [of "2 ^ k", where ?'a = real] by simp
  ultimately have "round (x * 2 ^ k) \<le> 2 ^ k" by simp
  then have "real_of_int (round (x * 2 ^ k)) \<le> real_of_int (2 ^ k)"
    by (simp only: of_int_le_iff)
  then have "real_of_int (round (x * 2 ^ k)) \<le> 2 ^ k" by simp
  then have "round_to_grid k x \<le> 1"
    by (simp add: round_to_grid_def divide_le_eq)
  moreover from lo have "0 \<le> round_to_grid k x"
    by (simp add: round_to_grid_def)
  ultimately show "0 \<le> round_to_grid k x \<and> round_to_grid k x \<le> 1" by simp
qed


text \<open>
  Where the store matters. With capacity 0, growth rate 0.5, \<open>c50\<close> 1, antigen count
  4 and \<open>inv_uL_blood\<close> 1 the exact sum of line 87 is two fifths. The float nearest
  to it, which the member then holds, is \<open>13421773 / 2\<^sup>2\<^sup>5\<close>, above the threshold:
  the proliferation term is added, and with \<open>dt = 1\<close> the capacity ends near 0.598,
  not at 0.4.
\<close>

lemma first_step_at_threshold:
  "round_to_grid 25 (2 / 5) = 13421773 / 33554432"
  "m_antibody_capacity
     (UpdateAntibodyCapacity (round_to_grid 25) (naive_example\<lparr>m_antigen_count := 4\<rparr>) 1
        (config_example\<lparr>MSP1_antibody_growthrate := 0.5, antibody_stimulation_c50 := 1\<rparr>) 1)
   = 13421773 / 33554432 + (1 - 13421773 / 33554432) * 0.33"
proof -
  have "round (67108864 / 5 :: real) = 13421773"
    by (rule round_unique') simp
  then show r: "round_to_grid 25 (2 / 5) = 13421773 / 33554432"
    by (simp add: round_to_grid_def)
  show "m_antibody_capacity
     (UpdateAntibodyCapacity (round_to_grid 25) (naive_example\<lparr>m_antigen_count := 4\<rparr>) 1
        (config_example\<lparr>MSP1_antibody_growthrate := 0.5, antibody_stimulation_c50 := 1\<rparr>) 1)
   = 13421773 / 33554432 + (1 - 13421773 / 33554432) * 0.33"
    unfolding UpdateAntibodyCapacity_def Let_def
    by (simp add: naive_example_def config_example_def basic_sigmoid_def float_of_count_def r
        B_CELL_PROLIFERATION_THRESHOLD_def B_CELL_PROLIFERATION_CONSTANT_def)
qed

subsection \<open>Lower bounds of the growth steps\<close>

lemma rapid_step_lower:
  fixes c k :: real
  assumes "0 \<le> c" "0 \<le> k" "c \<le> 1 \<or> k \<le> 1"
  shows "0 \<le> c + (1 - c) * k"
proof (cases "c \<le> 1")
  case True
  with assms have "0 \<le> (1 - c) * k" by simp
  with assms show ?thesis by linarith
next
  case False
  with assms have k: "k \<le> 1" by simp
  have "c + (1 - c) * k = c * (1 - k) + k" by (simp add: algebra_simps)
  moreover have "0 \<le> c * (1 - k)" using assms k by simp
  ultimately show ?thesis using assms by linarith
qed

lemma stimulated_step_lower:
  fixes cap g dt sg :: real
  assumes "0 \<le> cap" "cap \<le> 1" "0 \<le> g" "0 \<le> dt" "0 \<le> sg"
  shows "0 \<le> cap + g * dt * (1 - cap) * sg"
proof -
  have "0 \<le> g * dt * (1 - cap) * sg" using assms by simp
  with assms(1) show ?thesis by linarith
qed

lemma proliferation_step_lower:
  fixes cap dt :: real
  assumes "0 \<le> cap" "cap \<le> 1" "0 \<le> dt"
  shows "0 \<le> cap + (1 - cap) * B_CELL_PROLIFERATION_CONSTANT * dt"
proof -
  have "0 \<le> (1 - cap) * B_CELL_PROLIFERATION_CONSTANT * dt"
    using assms by (simp add: B_CELL_PROLIFERATION_CONSTANT_def)
  with assms(1) show ?thesis by linarith
qed

subsection \<open>The range of the capacity, function by function\<close>

lemma base_upper:
  "m_antibody_capacity (UpdateAntibodyCapacity stored this dt params inv_uL_blood) \<le> 1"
  by (simp add: UpdateAntibodyCapacity_def Let_def)

lemma base_bounds:
  assumes cap: "0 \<le> m_antibody_capacity this" "m_antibody_capacity this \<le> 1"
    and dt: "0 \<le> dt" and inv: "0 \<le> inv_uL_blood"
    and cnt: "0 \<le> sint (m_antigen_count this)"
    and g: "0 \<le> MSP1_antibody_growthrate params" "MSP1_antibody_growthrate params \<le> 1"
    and c50: "0 \<le> antibody_stimulation_c50 params"
    and keeps: "keeps_unit_interval stored"
  shows "capacity_in_unit (UpdateAntibodyCapacity stored this dt params inv_uL_blood)"
proof -
  define sg where "sg = basic_sigmoid (antibody_stimulation_c50 params)
                          (float_of_count (m_antigen_count this) * inv_uL_blood)"
  define e where "e = m_antibody_capacity this
                     + MSP1_antibody_growthrate params * (1 - m_antibody_capacity this) * sg"
  define c1 where "c1 = stored e"
  have x: "0 \<le> float_of_count (m_antigen_count this) * inv_uL_blood"
    using cnt inv by (simp add: float_of_count_nonneg)
  have sg: "0 \<le> sg" "sg \<le> 1"
    unfolding sg_def using basic_sigmoid_range [OF x c50] by simp_all
  have inc: "0 \<le> MSP1_antibody_growthrate params * (1 - m_antibody_capacity this) * sg"
    using g cap sg by simp
  have e_lo: "0 \<le> e" unfolding e_def using cap inc by linarith
  have e_hi: "e \<le> 1"
  proof -
    have "MSP1_antibody_growthrate params * sg \<le> 1 * 1"
      using g sg by (intro mult_mono) simp_all
    then have "MSP1_antibody_growthrate params * sg * (1 - m_antibody_capacity this)
                 \<le> 1 * (1 - m_antibody_capacity this)"
      using cap by (intro mult_right_mono) simp_all
    then show ?thesis unfolding e_def by (simp add: algebra_simps)
  qed
  from keeps e_lo e_hi have c1: "0 \<le> c1" "c1 \<le> 1"
    unfolding keeps_unit_interval_def c1_def by blast+
  have k: "0 \<le> B_CELL_PROLIFERATION_CONSTANT * dt"
    using dt by (simp add: B_CELL_PROLIFERATION_CONSTANT_def)
  have "c1 \<le> 1 \<or> B_CELL_PROLIFERATION_CONSTANT * dt \<le> 1"
    using c1 by blast
  from rapid_step_lower [OF c1(1) k this]
  have c2_lo: "0 \<le> c1 + (1 - c1) * B_CELL_PROLIFERATION_CONSTANT * dt"
    by (simp add: mult.assoc)
  have "m_antibody_capacity (UpdateAntibodyCapacity stored this dt params inv_uL_blood)
          = min (if c1 > B_CELL_PROLIFERATION_THRESHOLD
                 then c1 + (1 - c1) * B_CELL_PROLIFERATION_CONSTANT * dt else c1) 1"
    by (simp add: UpdateAntibodyCapacity_def Let_def c1_def e_def sg_def)
  then show ?thesis
    using c1 c2_lo by (simp add: capacity_in_unit_def)
qed

lemma rate_bounds:
  assumes "0 \<le> m_antibody_capacity this" "m_antibody_capacity this \<le> 1"
    "0 \<le> dt" "0 \<le> growth_rate"
  shows "capacity_in_unit (UpdateAntibodyCapacity_rate this dt growth_rate)"
proof -
  have "0 \<le> growth_rate * dt * (1 - m_antibody_capacity this)"
    using assms by simp
  then show ?thesis
    unfolding UpdateAntibodyCapacity_rate_def
    using assms(1) by (intro clamp_in_unit) simp
qed

lemma minor_bounds:
  assumes cap: "0 \<le> m_antibody_capacity this" "m_antibody_capacity this \<le> 1"
    and dt: "0 \<le> dt" and inv: "0 \<le> inv_uL_blood"
    and cnt: "0 \<le> sint (m_antigen_count this)"
    and g: "0 \<le> antibody_capacity_growthrate params" "0 \<le> non_specific_growth params"
    and c50: "0 \<le> antibody_stimulation_c50 params"
    and mar: "0 \<le> minimum_adapted_response params"
  shows "capacity_in_unit (PfEMP1Minor_UpdateAntibodyCapacity this dt params inv_uL_blood)"
proof -
  have x: "0 \<le> float_of_count (m_antigen_count this) * inv_uL_blood
              + antibody_stimulation_c50 params * minimum_adapted_response params"
    using cnt inv c50 mar by (simp add: float_of_count_nonneg)
  have gr: "0 \<le> antibody_capacity_growthrate params * non_specific_growth params"
    using g by simp
  note a = stimulated_step_lower [OF cap gr dt basic_sigmoid_range(1) [OF x c50]]
  note b = proliferation_step_lower [OF cap dt]
  show ?thesis
    unfolding PfEMP1Minor_UpdateAntibodyCapacity_def Let_def
    using a b by (intro clamp_in_unit) simp
qed

lemma major_low_bounds:
  assumes cap: "0 \<le> m_antibody_capacity this" "m_antibody_capacity this \<le> 1"
    and dt: "0 \<le> dt" and inv: "0 \<le> inv_uL_blood"
    and cnt: "0 \<le> sint (m_antigen_count this)"
    and g: "0 \<le> antibody_capacity_growthrate params"
    and c50: "0 \<le> antibody_stimulation_c50 params"
    and mar: "0 \<le> minimum_adapted_response params"
    and low: "m_antibody_capacity this \<le> B_CELL_PROLIFERATION_THRESHOLD"
  shows "capacity_in_unit (PfEMP1Major_UpdateAntibodyCapacity this dt params inv_uL_blood)"
proof -
  have x: "0 \<le> float_of_count (m_antigen_count this) * inv_uL_blood
              + antibody_stimulation_c50 params * minimum_adapted_response params"
    using cnt inv c50 mar by (simp add: float_of_count_nonneg)
  note a = stimulated_step_lower [OF cap g dt basic_sigmoid_range(1) [OF x c50]]
  show ?thesis
    unfolding PfEMP1Major_UpdateAntibodyCapacity_def Let_def
    using a low by (simp add: clamp_in_unit)
qed

lemma major_rapid:
  assumes "B_CELL_PROLIFERATION_THRESHOLD < m_antibody_capacity this"
  shows "PfEMP1Major_UpdateAntibodyCapacity this dt params inv_uL_blood
           = this\<lparr>m_antibody_capacity :=
                m_antibody_capacity this
                + (1 - m_antibody_capacity this) * B_CELL_PROLIFERATION_CONSTANT * dt\<rparr>"
  using assms by (simp add: PfEMP1Major_UpdateAntibodyCapacity_def Let_def)

section \<open>Counters and frame\<close>

text \<open>
  C8. \<^verbatim>\<open>IncreaseAntigenCount(n)\<close> with \<open>n > 0\<close> adds \<open>n\<close> to \<^verbatim>\<open>m_antigen_count\<close> and sets
  \<^verbatim>\<open>m_antigen_present\<close>, changing nothing else; with \<open>n \<le> 0\<close> it returns the object as it
  was, so that both members keep their values. The sum is the 64-bit one; where the
  mathematical sum fits in an \<^verbatim>\<open>int64_t\<close> it is that sum. The calls with 0 and with -5
  are the two instances named in the specification.
\<close>

theorem IncreaseAntigenCount_spec:
  "(0 <s n \<longrightarrow>
      IncreaseAntigenCount this n
        = this\<lparr>m_antigen_count := m_antigen_count this + n, m_antigen_present := True\<rparr>
      \<and> (sint (m_antigen_count this) + sint n < 2 ^ 63 \<longrightarrow>
           sint (m_antigen_count (IncreaseAntigenCount this n))
             = sint (m_antigen_count this) + sint n))
   \<and> (n \<le>s 0 \<longrightarrow> IncreaseAntigenCount this n = this)
   \<and> IncreaseAntigenCount this 0 = this
   \<and> IncreaseAntigenCount this (- 5) = this"
  by (auto simp: IncreaseAntigenCount_def sint_add_no_overflow sless_zero sle_zero)

theorem IncreaseAntigenCount_spec_witness:
  "0 <s (3 :: 64 word)
   \<and> sint (m_antigen_count lineage_example) + sint (3 :: 64 word) < 2 ^ 63
   \<and> sint (m_antigen_count (IncreaseAntigenCount lineage_example 3)) = 10
   \<and> m_antigen_present (IncreaseAntigenCount lineage_example 3)
   \<and> (- 5 :: 64 word) \<le>s 0
   \<and> m_antigen_count (IncreaseAntigenCount boosted_example (- 5)) = 5
   \<and> m_antigen_present (IncreaseAntigenCount boosted_example (- 5))"
  using IncreaseAntigenCount_spec [of 3 lineage_example]
    IncreaseAntigenCount_spec [of "- 5" boosted_example]
  by (simp add: lineage_example_def boosted_example_def sless_zero sle_zero)

text \<open>
  C10. \<^verbatim>\<open>Decay\<close>, both overloads of \<^verbatim>\<open>UpdateAntibodyCapacity\<close> and
  \<^verbatim>\<open>UpdateAntibodyConcentration\<close>, in every class, leave the type, the variant, the
  antigen count and the presence flag as they were. \<^verbatim>\<open>ResetCounters\<close> leaves capacity,
  concentration, type and variant as they were, and sets the count to 0 and the flag to
  false.
\<close>

theorem kinetics_frame:
  "same_identity_and_counters this (virtual_Decay cls this dt params)
   \<and> same_identity_and_counters this
        (virtual_UpdateAntibodyCapacity stored cls this dt params inv_uL_blood)
   \<and> same_identity_and_counters this (UpdateAntibodyCapacity_rate this dt growth_rate)
   \<and> same_identity_and_counters this (virtual_UpdateAntibodyConcentration cls this dt params)
   \<and> same_kinetics_and_identity this (ResetCounters this)
   \<and> m_antigen_count (ResetCounters this) = 0
   \<and> \<not> m_antigen_present (ResetCounters this)"
  by (cases cls)
    (simp_all add: same_identity_and_counters_def same_kinetics_and_identity_def
      Decay_def CSP_Decay_def UpdateAntibodyCapacity_def UpdateAntibodyCapacity_rate_def
      PfEMP1Minor_UpdateAntibodyCapacity_def PfEMP1Major_UpdateAntibodyCapacity_def
      UpdateAntibodyConcentration_def CSP_UpdateAntibodyConcentration_def
      ResetCounters_def clamp_capacity_def Let_def)

section \<open>Cytokine stimulation\<close>

text \<open>
  C9. \<^verbatim>\<open>StimulateCytokines(dt, inv_uL_blood)\<close> returns
  \<open>(1 - concentration) * antigen_count * inv_uL_blood\<close> and leaves the object, all six
  members, as it was.
\<close>

theorem StimulateCytokines_spec:
  "fst (StimulateCytokines this dt inv_uL_blood)
     = (1 - m_antibody_concentration this) * real_of_int (sint (m_antigen_count this))
       * inv_uL_blood
   \<and> snd (StimulateCytokines this dt inv_uL_blood) = this"
  by (simp add: StimulateCytokines_def float_of_count_def)

section \<open>Decay and release\<close>

text \<open>
  C7. In every class that runs the base \<^verbatim>\<open>Decay\<close>, the new concentration is
  \<open>concentration - concentration * 0.05 * dt\<close> when the old one exceeds \<open>1e-7\<close> and the
  old one otherwise; the new capacity is
  \<open>capacity - (capacity - memory_level) * hyperimmune_decay_rate * dt\<close> when the old one
  exceeds \<open>memory_level\<close> and the old one otherwise, whatever happened to the
  concentration. With concentration 0.5 and \<open>dt = 1\<close> the new concentration is 0.475.
\<close>

theorem Decay_spec:
  "cls \<noteq> MalariaAntibodyCSP \<longrightarrow>
     m_antibody_concentration (virtual_Decay cls this dt params)
       = (if m_antibody_concentration this > 1 / 10000000
          then m_antibody_concentration this - m_antibody_concentration this * 0.05 * dt
          else m_antibody_concentration this)
     \<and> m_antibody_capacity (virtual_Decay cls this dt params)
       = (if m_antibody_capacity this > memory_level params
          then m_antibody_capacity this
               - (m_antibody_capacity this - memory_level params)
                 * hyperimmune_decay_rate params * dt
          else m_antibody_capacity this)
     \<and> (m_antibody_concentration this = 0.5 \<longrightarrow>
          m_antibody_concentration (virtual_Decay cls this 1 params) = 0.475)"
  by (cases cls)
    (simp_all add: Decay_def Let_def NON_TRIVIAL_ANTIBODY_THRESHOLD_def
      TWENTY_DAY_DECAY_CONSTANT_def)

theorem Decay_spec_witness:
  "MalariaAntibodyPfEMP1Major \<noteq> MalariaAntibodyCSP
   \<and> m_antibody_concentration scenario_B = 0.5
   \<and> m_antibody_concentration (virtual_Decay MalariaAntibodyPfEMP1Major scenario_B 1 config_example)
       = 0.475
   \<and> m_antibody_capacity (virtual_Decay MalariaAntibodyPfEMP1Major scenario_B 1 config_example)
       = 0.9435"
  using Decay_spec [of MalariaAntibodyPfEMP1Major scenario_B 1 config_example]
  by (simp add: scenario_B_def config_example_def)

text \<open>
  C3. In every class other than \<^verbatim>\<open>MalariaAntibodyCSP\<close>, and from every state, the
  concentration after \<^verbatim>\<open>UpdateAntibodyConcentration\<close> is at most the capacity. This
  includes the states whose capacity is at or below the release threshold 0.3 and
  those whose concentration had been set above the capacity.
\<close>

theorem UpdateAntibodyConcentration_clamped:
  "cls \<noteq> MalariaAntibodyCSP \<Longrightarrow>
     m_antibody_concentration (virtual_UpdateAntibodyConcentration cls this dt params)
       \<le> m_antibody_capacity (virtual_UpdateAntibodyConcentration cls this dt params)"
  by (cases cls) (simp_all add: UpdateAntibodyConcentration_def Let_def)

theorem UpdateAntibodyConcentration_clamped_witness:
  "MalariaAntibodyMSP \<noteq> MalariaAntibodyCSP
   \<and> m_antibody_capacity boosted_example \<le> ANTIBODY_RELEASE_THRESHOLD
   \<and> m_antibody_capacity boosted_example < m_antibody_concentration boosted_example
   \<and> m_antibody_concentration
         (virtual_UpdateAntibodyConcentration MalariaAntibodyMSP boosted_example 1 config_example)
       \<le> m_antibody_capacity
           (virtual_UpdateAntibodyConcentration MalariaAntibodyMSP boosted_example 1 config_example)"
  using UpdateAntibodyConcentration_clamped
          [of MalariaAntibodyMSP boosted_example 1 config_example]
  by (simp add: boosted_example_def ANTIBODY_RELEASE_THRESHOLD_def)

section \<open>The CSP overrides\<close>

text \<open>
  C2. For a \<^verbatim>\<open>MalariaAntibodyCSP\<close> object whose concentration is above its capacity,
  \<^verbatim>\<open>Decay\<close> and \<^verbatim>\<open>UpdateAntibodyConcentration\<close> both replace the concentration by
  \<open>concentration * (1 - dt / antibody_csp_decay_days)\<close> and change nothing else: the
  capacity stays, and the concentration is not cut down to it. When the concentration
  is at most the capacity, both are the base class's function.
\<close>

theorem CSP_boosted_spec:
  "(m_antibody_concentration this > m_antibody_capacity this \<longrightarrow>
      virtual_Decay MalariaAntibodyCSP this dt params
        = this\<lparr>m_antibody_concentration :=
               m_antibody_concentration this * (1 - dt / antibody_csp_decay_days params)\<rparr>
      \<and> virtual_UpdateAntibodyConcentration MalariaAntibodyCSP this dt params
        = this\<lparr>m_antibody_concentration :=
               m_antibody_concentration this * (1 - dt / antibody_csp_decay_days params)\<rparr>)
   \<and> (m_antibody_concentration this \<le> m_antibody_capacity this \<longrightarrow>
      virtual_Decay MalariaAntibodyCSP this dt params = Decay this dt params
      \<and> virtual_UpdateAntibodyConcentration MalariaAntibodyCSP this dt params
        = UpdateAntibodyConcentration this dt params)"
  by (simp add: CSP_Decay_def CSP_UpdateAntibodyConcentration_def algebra_simps)

theorem CSP_boosted_spec_witness:
  "m_antibody_concentration boosted_example > m_antibody_capacity boosted_example
   \<and> m_antibody_concentration (virtual_Decay MalariaAntibodyCSP boosted_example 1 config_example)
       = 89 / 45
   \<and> m_antibody_capacity (virtual_Decay MalariaAntibodyCSP boosted_example 1 config_example)
       = 1 / 4
   \<and> m_antibody_concentration
        (virtual_UpdateAntibodyConcentration MalariaAntibodyCSP boosted_example 1 config_example)
       = 89 / 45
   \<and> m_antibody_capacity
        (virtual_UpdateAntibodyConcentration MalariaAntibodyCSP boosted_example 1 config_example)
       = 1 / 4
   \<and> m_antibody_concentration lineage_example \<le> m_antibody_capacity lineage_example
   \<and> virtual_Decay MalariaAntibodyCSP lineage_example 1 config_example
       = Decay lineage_example 1 config_example
   \<and> virtual_UpdateAntibodyConcentration MalariaAntibodyCSP lineage_example 1 config_example
       = UpdateAntibodyConcentration lineage_example 1 config_example"
  using CSP_boosted_spec [of boosted_example 1 config_example]
    CSP_boosted_spec [of lineage_example 1 config_example]
  by (simp add: boosted_example_def lineage_example_def config_example_def)

section \<open>Capacity growth\<close>



text \<open>
  C5. In \<^verbatim>\<open>MalariaAntibodyPfEMP1Minor\<close>, \<^verbatim>\<open>UpdateAntibodyCapacity(dt, params, inv_uL_blood)\<close>
  adds, when the capacity is below 0.4,
  \<open>growth_rate * dt * (1 - capacity) * sigmoid(c50, antigen_count * inv_uL_blood + min_stimulation)\<close>
  with \<open>growth_rate = antibody_capacity_growthrate * non_specific_growth\<close> and
  \<open>min_stimulation = antibody_stimulation_c50 * minimum_adapted_response\<close>, and when
  the capacity is at or above 0.4 it adds \<open>(1 - capacity) * 0.33 * dt\<close> instead; either
  way the capacity is then cut down to 1 and nothing else changes. The capacity is
  the \<^verbatim>\<open>float\<close> it is in the code: the test of line 120 is \<^verbatim>\<open><=\<close> against the literal
  \<^verbatim>\<open>0.4\<close>, and since no float equals that literal or two fifths
  (\<open>single_precision_not_threshold\<close>, \<open>threshold_literal_faithful\<close>), the test sends
  exactly the capacities below 0.4 to the first branch.
\<close>

theorem PfEMP1Minor_UpdateAntibodyCapacity_spec:
  assumes "single_precision (m_antibody_capacity this)"
  shows
    "(m_antibody_capacity this < 0.4 \<longrightarrow>
        virtual_UpdateAntibodyCapacity stored MalariaAntibodyPfEMP1Minor this dt params
            inv_uL_blood
          = this\<lparr>m_antibody_capacity :=
              min (m_antibody_capacity this
                   + antibody_capacity_growthrate params * non_specific_growth params * dt
                     * (1 - m_antibody_capacity this)
                     * basic_sigmoid (antibody_stimulation_c50 params)
                         (real_of_int (sint (m_antigen_count this)) * inv_uL_blood
                          + antibody_stimulation_c50 params * minimum_adapted_response params))
                  1\<rparr>)
     \<and> (0.4 \<le> m_antibody_capacity this \<longrightarrow>
        virtual_UpdateAntibodyCapacity stored MalariaAntibodyPfEMP1Minor this dt params
            inv_uL_blood
          = this\<lparr>m_antibody_capacity :=
              min (m_antibody_capacity this + (1 - m_antibody_capacity this) * 0.33 * dt) 1\<rparr>)"
proof -
  have "m_antibody_capacity this \<noteq> 0.4"
    using single_precision_not_threshold [OF assms]
    by (simp add: B_CELL_PROLIFERATION_THRESHOLD_def)
  then show ?thesis
    by (simp add: PfEMP1Minor_UpdateAntibodyCapacity_def Let_def clamp_capacity_update
        float_of_count_def B_CELL_PROLIFERATION_THRESHOLD_def
        B_CELL_PROLIFERATION_CONSTANT_def)
qed

theorem PfEMP1Minor_UpdateAntibodyCapacity_spec_witness:
  "single_precision (m_antibody_capacity lineage_example)
   \<and> 0.4 \<le> m_antibody_capacity lineage_example
   \<and> virtual_UpdateAntibodyCapacity (round_to_grid 24) MalariaAntibodyPfEMP1Minor
         lineage_example 1 config_example 0.01
       = lineage_example\<lparr>m_antibody_capacity := 133 / 200\<rparr>
   \<and> single_precision (m_antibody_capacity boosted_example)
   \<and> m_antibody_capacity boosted_example < 0.4
   \<and> virtual_UpdateAntibodyCapacity (round_to_grid 24) MalariaAntibodyPfEMP1Minor
         boosted_example 1 config_example 0.01
       = boosted_example\<lparr>m_antibody_capacity := 1 / 4 + 3 / 80 * basic_sigmoid 20 (1 / 4)\<rparr>"
proof -
  have a: "single_precision (m_antibody_capacity lineage_example)"
    using single_precision_fraction [of 1] by (simp add: lineage_example_def)
  have b: "single_precision (m_antibody_capacity boosted_example)"
    using single_precision_fraction [of 2] by (simp add: boosted_example_def)
  have s: "basic_sigmoid 20 (1 / 4) = 1 / 81"
    by (simp add: basic_sigmoid_def)
  show ?thesis
    using a b
      PfEMP1Minor_UpdateAntibodyCapacity_spec [OF a, where dt = 1
        and params = config_example and inv_uL_blood = "0.01"
        and stored = "round_to_grid 24"]
      PfEMP1Minor_UpdateAntibodyCapacity_spec [OF b, where dt = 1
        and params = config_example and inv_uL_blood = "0.01"
        and stored = "round_to_grid 24"]
    by (simp add: lineage_example_def boosted_example_def config_example_def s)
qed

text \<open>
  C4. The claim: from \<open>0 \<le> capacity \<le> 1\<close>, with \<open>dt\<close>, the growth rates, the antigen
  count and \<open>inv_uL_blood\<close> non-negative, every capacity update of every class leaves
  \<open>0 \<le> capacity \<le> 1\<close>, except the branch of \<^verbatim>\<open>MalariaAntibodyPfEMP1Major\<close> for
  capacities above 0.4. It fails in the base class: a growth rate above one can carry
  the first step above 1, and the proliferation term \<open>(1 - capacity) * 0.33 * dt\<close> is
  then negative and, for a long step, larger than the capacity. With growth rate 10,
  \<open>dt = 10\<close> and a sigmoid of one half, a naive \<^verbatim>\<open>MalariaAntibodyMSP\<close> lineage goes
  from capacity 0 to 5, which is a float and is stored as it is, then to -8.2, which
  the final test against 1 lets through.
\<close>

theorem UpdateAntibodyCapacity_below_zero:
  "capacity_in_unit naive_example
   \<and> (0::real) \<le> 10
   \<and> (0::real) \<le> 1
   \<and> 0 \<le> sint (m_antigen_count naive_example)
   \<and> 0 \<le> MSP1_antibody_growthrate config_fast_growth
   \<and> 0 \<le> antibody_capacity_growthrate config_fast_growth
   \<and> 0 \<le> non_specific_growth config_fast_growth
   \<and> 0 \<le> antibody_stimulation_c50 config_fast_growth
   \<and> 0 \<le> minimum_adapted_response config_fast_growth
   \<and> round_to_grid 21 5 = 5
   \<and> m_antibody_capacity
        (virtual_UpdateAntibodyCapacity (round_to_grid 21) MalariaAntibodyMSP naive_example 10
           config_fast_growth 1)
       = - (41 / 5)
   \<and> \<not> capacity_in_unit
        (virtual_UpdateAntibodyCapacity (round_to_grid 21) MalariaAntibodyMSP naive_example 10
           config_fast_growth 1)"
  by (simp add: capacity_in_unit_def naive_example_def config_fast_growth_def
      UpdateAntibodyCapacity_def Let_def basic_sigmoid_def float_of_count_def
      round_to_grid_def B_CELL_PROLIFERATION_THRESHOLD_def B_CELL_PROLIFERATION_CONSTANT_def)

text \<open>
  The bounds also need \<^verbatim>\<open>antibody_stimulation_c50\<close> to be positive: a negative one
  makes the sigmoid negative, and the PfEMP1 updates then take capacity away; with
  zero and no antigen the sigmoid is 0/0.
\<close>

lemma negative_c50_below_zero:
  "m_antibody_capacity
     (virtual_UpdateAntibodyCapacity stored MalariaAntibodyPfEMP1Minor naive_example 1
        (config_example\<lparr>antibody_stimulation_c50 := - 2, minimum_adapted_response := 0\<rparr>) 1)
   = - (1 / 20)"
  by (simp add: naive_example_def config_example_def PfEMP1Minor_UpdateAntibodyCapacity_def
      Let_def basic_sigmoid_def float_of_count_def B_CELL_PROLIFERATION_THRESHOLD_def)

text \<open>
  C4, amended. From \<open>0 \<le> capacity \<le> 1\<close>, with \<open>dt\<close>, \<open>inv_uL_blood\<close>, the antigen count
  and the configuration values the updates read non-negative (the growth rates and
  \<^verbatim>\<open>minimum_adapted_response\<close>) and \<^verbatim>\<open>antibody_stimulation_c50\<close> positive:
  \<^item> the two-argument overload leaves \<open>0 \<le> capacity \<le> 1\<close>;
  \<^item> the base class's update, which \<^verbatim>\<open>MalariaAntibodyCSP\<close> and \<^verbatim>\<open>MalariaAntibodyMSP\<close>
    inherit, leaves \<open>capacity \<le> 1\<close>, and leaves \<open>0 \<le> capacity\<close> as well when
    \<^verbatim>\<open>MSP1_antibody_growthrate\<close> is at most 1;
  \<^item> \<^verbatim>\<open>MalariaAntibodyPfEMP1Minor\<close> leaves \<open>0 \<le> capacity \<le> 1\<close>;
  \<^item> \<^verbatim>\<open>MalariaAntibodyPfEMP1Major\<close> leaves \<open>0 \<le> capacity \<le> 1\<close> from a capacity of at
    most 0.4; from a capacity above 0.4 the result is
    \<open>capacity + (1 - capacity) * 0.33 * dt\<close> with no cut at 1, which is non-negative,
    and there are such inputs for which it exceeds 1.
  The store of line 87 is taken to keep a sum between 0 and 1 between 0 and 1.
\<close>

theorem UpdateAntibodyCapacity_range:
  assumes "capacity_in_unit this" "0 \<le> dt" "0 \<le> inv_uL_blood"
    and "0 \<le> sint (m_antigen_count this)" "0 \<le> growth_rate"
    and "0 \<le> MSP1_antibody_growthrate params" "0 \<le> antibody_capacity_growthrate params"
    and "0 \<le> non_specific_growth params" "0 < antibody_stimulation_c50 params"
    and "0 \<le> minimum_adapted_response params"
    and "keeps_unit_interval stored"
  shows
    "capacity_in_unit (UpdateAntibodyCapacity_rate this dt growth_rate)
     \<and> (cls = MalariaAntibodyBase \<or> cls = MalariaAntibodyCSP \<or> cls = MalariaAntibodyMSP \<longrightarrow>
          m_antibody_capacity
            (virtual_UpdateAntibodyCapacity stored cls this dt params inv_uL_blood) \<le> 1
          \<and> (MSP1_antibody_growthrate params \<le> 1 \<longrightarrow>
               capacity_in_unit
                 (virtual_UpdateAntibodyCapacity stored cls this dt params inv_uL_blood)))
     \<and> capacity_in_unit
          (virtual_UpdateAntibodyCapacity stored MalariaAntibodyPfEMP1Minor this dt params
             inv_uL_blood)
     \<and> (m_antibody_capacity this \<le> 0.4 \<longrightarrow>
          capacity_in_unit
            (virtual_UpdateAntibodyCapacity stored MalariaAntibodyPfEMP1Major this dt params
               inv_uL_blood))
     \<and> (0.4 < m_antibody_capacity this \<longrightarrow>
          virtual_UpdateAntibodyCapacity stored MalariaAntibodyPfEMP1Major this dt params
              inv_uL_blood
            = this\<lparr>m_antibody_capacity :=
                 m_antibody_capacity this + (1 - m_antibody_capacity this) * 0.33 * dt\<rparr>
          \<and> 0 \<le> m_antibody_capacity
                   (virtual_UpdateAntibodyCapacity stored MalariaAntibodyPfEMP1Major this dt
                      params inv_uL_blood))
     \<and> (\<exists>s t. capacity_in_unit s \<and> 0.4 < m_antibody_capacity s \<and> 0 \<le> t
            \<and> 0 \<le> sint (m_antigen_count s)
            \<and> 1 < m_antibody_capacity
                    (virtual_UpdateAntibodyCapacity stored MalariaAntibodyPfEMP1Major s t
                       params inv_uL_blood))"
proof -
  from assms(1) have cap: "0 \<le> m_antibody_capacity this" "m_antibody_capacity this \<le> 1"
    by (simp_all add: capacity_in_unit_def)
  from assms(9) have c50: "0 \<le> antibody_stimulation_c50 params" by simp
  have rate: "capacity_in_unit (UpdateAntibodyCapacity_rate this dt growth_rate)"
    using cap assms by (intro rate_bounds)
  have base: "capacity_in_unit (UpdateAntibodyCapacity stored this dt params inv_uL_blood)"
    if "MSP1_antibody_growthrate params \<le> 1"
    using cap assms(2-6) that c50 assms(11) by (intro base_bounds)
  have inherited:
    "virtual_UpdateAntibodyCapacity stored cls this dt params inv_uL_blood
       = UpdateAntibodyCapacity stored this dt params inv_uL_blood"
    if "cls = MalariaAntibodyBase \<or> cls = MalariaAntibodyCSP \<or> cls = MalariaAntibodyMSP"
    using that by auto
  have base_classes:
    "m_antibody_capacity
       (virtual_UpdateAntibodyCapacity stored cls this dt params inv_uL_blood) \<le> 1
     \<and> (MSP1_antibody_growthrate params \<le> 1 \<longrightarrow>
          capacity_in_unit
            (virtual_UpdateAntibodyCapacity stored cls this dt params inv_uL_blood))"
    if "cls = MalariaAntibodyBase \<or> cls = MalariaAntibodyCSP \<or> cls = MalariaAntibodyMSP"
    unfolding inherited [OF that] using base_upper [of stored this dt params inv_uL_blood] base
    by blast
  have minor: "capacity_in_unit
      (virtual_UpdateAntibodyCapacity stored MalariaAntibodyPfEMP1Minor this dt params
         inv_uL_blood)"
    using cap assms c50 by (simp add: minor_bounds)
  have major_low: "capacity_in_unit
      (virtual_UpdateAntibodyCapacity stored MalariaAntibodyPfEMP1Major this dt params
         inv_uL_blood)"
    if "m_antibody_capacity this \<le> 0.4"
  proof -
    from that have "m_antibody_capacity this \<le> B_CELL_PROLIFERATION_THRESHOLD"
      by (simp add: B_CELL_PROLIFERATION_THRESHOLD_def)
    with cap assms c50 show ?thesis by (simp add: major_low_bounds)
  qed
  have major_high:
    "virtual_UpdateAntibodyCapacity stored MalariaAntibodyPfEMP1Major this dt params
         inv_uL_blood
       = this\<lparr>m_antibody_capacity :=
            m_antibody_capacity this + (1 - m_antibody_capacity this) * 0.33 * dt\<rparr>
     \<and> 0 \<le> m_antibody_capacity
              (virtual_UpdateAntibodyCapacity stored MalariaAntibodyPfEMP1Major this dt
                 params inv_uL_blood)"
    if "0.4 < m_antibody_capacity this"
  proof -
    from that have "B_CELL_PROLIFERATION_THRESHOLD < m_antibody_capacity this"
      by (simp add: B_CELL_PROLIFERATION_THRESHOLD_def)
    from major_rapid [OF this, of dt params inv_uL_blood]
    have eq: "virtual_UpdateAntibodyCapacity stored MalariaAntibodyPfEMP1Major this dt params
                inv_uL_blood
              = this\<lparr>m_antibody_capacity :=
                   m_antibody_capacity this + (1 - m_antibody_capacity this) * 0.33 * dt\<rparr>"
      by (simp add: B_CELL_PROLIFERATION_CONSTANT_def)
    have lo: "0 \<le> m_antibody_capacity this + (1 - m_antibody_capacity this) * 0.33 * dt"
      using proliferation_step_lower [OF cap assms(2)]
      by (simp add: B_CELL_PROLIFERATION_CONSTANT_def)
    show ?thesis
      unfolding eq using lo by simp
  qed
  have ex: "\<exists>s t. capacity_in_unit s \<and> 0.4 < m_antibody_capacity s \<and> 0 \<le> t
            \<and> 0 \<le> sint (m_antigen_count s)
            \<and> 1 < m_antibody_capacity
                    (virtual_UpdateAntibodyCapacity stored MalariaAntibodyPfEMP1Major s t
                       params inv_uL_blood)"
    by (rule exI [of _ lineage_example], rule exI [of _ 4])
      (simp add: lineage_example_def capacity_in_unit_def
        PfEMP1Major_UpdateAntibodyCapacity_def Let_def
        B_CELL_PROLIFERATION_THRESHOLD_def B_CELL_PROLIFERATION_CONSTANT_def)
  from rate base_classes minor major_low major_high ex show ?thesis
    by blast
qed

theorem UpdateAntibodyCapacity_range_witness:
  "capacity_in_unit lineage_example
   \<and> 0 \<le> sint (m_antigen_count lineage_example)
   \<and> 0 \<le> MSP1_antibody_growthrate config_example
   \<and> 0 \<le> antibody_capacity_growthrate config_example
   \<and> 0 \<le> non_specific_growth config_example
   \<and> 0 < antibody_stimulation_c50 config_example
   \<and> 0 \<le> minimum_adapted_response config_example
   \<and> keeps_unit_interval (round_to_grid 24)
   \<and> MSP1_antibody_growthrate config_example \<le> 1
   \<and> 0.4 < m_antibody_capacity lineage_example
   \<and> capacity_in_unit (UpdateAntibodyCapacity_rate lineage_example 4 0.1)
   \<and> capacity_in_unit
        (virtual_UpdateAntibodyCapacity (round_to_grid 24) MalariaAntibodyMSP lineage_example 4
           config_example 0.01)
   \<and> capacity_in_unit
        (virtual_UpdateAntibodyCapacity (round_to_grid 24) MalariaAntibodyPfEMP1Minor
           lineage_example 4 config_example 0.01)
   \<and> m_antibody_capacity
        (virtual_UpdateAntibodyCapacity (round_to_grid 24) MalariaAntibodyPfEMP1Major
           lineage_example 4 config_example 0.01) = 29 / 25
   \<and> 1 < m_antibody_capacity
        (virtual_UpdateAntibodyCapacity (round_to_grid 24) MalariaAntibodyPfEMP1Major
           lineage_example 4 config_example 0.01)"
proof -
  have h: "capacity_in_unit lineage_example" "(0::real) \<le> 4" "(0::real) \<le> 0.01"
    "0 \<le> sint (m_antigen_count lineage_example)" "(0::real) \<le> 0.1"
    "0 \<le> MSP1_antibody_growthrate config_example"
    "0 \<le> antibody_capacity_growthrate config_example"
    "0 \<le> non_specific_growth config_example"
    "0 < antibody_stimulation_c50 config_example"
    "0 \<le> minimum_adapted_response config_example"
    "keeps_unit_interval (round_to_grid 24)"
    by (simp_all add: capacity_in_unit_def lineage_example_def config_example_def
        round_to_grid_unit)
  have g: "MSP1_antibody_growthrate config_example \<le> 1"
    "0.4 < m_antibody_capacity lineage_example"
    by (simp_all add: lineage_example_def config_example_def)
  show ?thesis
    using h g UpdateAntibodyCapacity_range [OF h, where cls = MalariaAntibodyMSP]
    by (simp add: lineage_example_def)
qed

section \<open>JSON export and import\<close>

lemma JSerialize_keys:
  "map fst (JSerialize enum_code this)
     = [''m_antibody_capacity'', ''m_antibody_concentration'', ''m_antigen_count'',
        ''m_antigen_present'', ''m_antibody_type'', ''m_antibody_variant'']"
  by (simp add: JSerialize_def)

text \<open>
  C1. The claim: exporting a lineage with \<^verbatim>\<open>JSerialize\<close> and importing the record with
  \<^verbatim>\<open>JDeserialize\<close> into a fresh lineage of the same class reproduces the six members.
  The compiled \<^verbatim>\<open>JDeserialize\<close> is empty, so the receiving object stays what it was,
  whatever the record holds. A lineage with antigen count 5 and the presence flag set
  comes back, in a freshly constructed object of any class, with count 0 and the flag
  cleared.
\<close>

theorem JDeserialize_restores_nothing:
  "virtual_JDeserialize cls (MalariaAntibody_ctor mem)
       (virtual_JSerialize cls enum_code boosted_example)
     = MalariaAntibody_ctor mem
   \<and> m_antigen_count boosted_example = 5
   \<and> m_antigen_count
        (virtual_JDeserialize cls (MalariaAntibody_ctor mem)
           (virtual_JSerialize cls enum_code boosted_example)) = 0
   \<and> m_antigen_present boosted_example
   \<and> \<not> m_antigen_present
        (virtual_JDeserialize cls (MalariaAntibody_ctor mem)
           (virtual_JSerialize cls enum_code boosted_example))"
  by (simp add: virtual_JDeserialize_def JDeserialize_def MalariaAntibody_ctor_def
      boosted_example_def)

end
